theory Spec2Isabelle
  imports Complex_Main "HOL-Library.Word"
begin

section \<open>JavaScript values\<close>

text \<open>
  The proxy is \<^verbatim>\<open>src/index.js\<close>. The file holds two variants of the program, one after
  the other: the first (lines 1-429) and the second (lines 430-802). Definitions of the
  first variant end in \<open>1\<close>, those of the second in \<open>2\<close>; definitions that both
  variants share textually carry no suffix.

  Values that travel in protocol messages are what \<^verbatim>\<open>JSON.parse\<close> returns, plus
  \<^verbatim>\<open>undefined\<close> (a missing property or array element) and the values that a
  property lookup on an object literal finds on \<^verbatim>\<open>Object.prototype\<close>.
  The program never computes with the numbers of a message: it forwards them, renders
  them in template literals and tests them for truthiness. A number is therefore
  represented by its canonical text, the string that \<^verbatim>\<open>String(n)\<close> returns
  (\<open>JNum ''0.002''\<close> is the number 0.002). An object is a JSON object: the list of its
  own properties, none of them callable.
\<close>

datatype jsval =
    JUndefined
  | JNull
  | JBool bool
  | JNum string
  | JStr string
  | JArr "jsval list"
  | JObj "(string \<times> jsval) list"
  | JNative string

text \<open>
  \<open>JNative k\<close> is the value of the property \<open>k\<close> of \<^verbatim>\<open>Object.prototype\<close>:
  a built-in function, or the prototype object itself for \<^verbatim>\<open>__proto__\<close>.
\<close>

definition Object_prototype :: "string list" where
  "Object_prototype =
     [''constructor'', ''__defineGetter__'', ''__defineSetter__'', ''hasOwnProperty'',
      ''__lookupGetter__'', ''__lookupSetter__'', ''isPrototypeOf'',
      ''propertyIsEnumerable'', ''toString'', ''valueOf'', ''__proto__'',
      ''toLocaleString'']"

definition native_text :: "string \<Rightarrow> string" where
  "native_text k =
     (if k = ''__proto__'' then ''[object Object]''
      else if k = ''constructor'' then ''function Object() { [native code] }''
      else ''function '' @ k @ ''() { [native code] }'')"

fun join :: "string \<Rightarrow> string list \<Rightarrow> string" where
  "join sep [] = []"
| "join sep [s] = s"
| "join sep (s # t # ss) = s @ sep @ join sep (t # ss)"

text \<open>
  \<^verbatim>\<open>ToString\<close>, as a template literal \<^verbatim>\<open>`${v}`\<close> and a computed property key
  \<^verbatim>\<open>o[v]\<close> apply it. \<open>None\<close> is the \<^verbatim>\<open>TypeError\<close> "Cannot convert object to
  primitive value": a JSON object with an own property \<^verbatim>\<open>toString\<close> hides the
  inherited method behind a value that cannot be called, and the inherited
  \<^verbatim>\<open>valueOf\<close> returns the object itself. An array is joined with commas, its
  \<^verbatim>\<open>null\<close> and \<^verbatim>\<open>undefined\<close> elements rendered empty.
\<close>

fun to_string :: "jsval \<Rightarrow> string option"
  and element_strings :: "jsval list \<Rightarrow> string list option" where
  "to_string JUndefined = Some ''undefined''"
| "to_string JNull = Some ''null''"
| "to_string (JBool b) = Some (if b then ''true'' else ''false'')"
| "to_string (JNum s) = Some s"
| "to_string (JStr s) = Some s"
| "to_string (JArr xs) = map_option (join '','') (element_strings xs)"
| "to_string (JObj kvs) =
     (if ''toString'' \<in> set (map fst kvs) then None else Some ''[object Object]'')"
| "to_string (JNative k) = Some (native_text k)"
| "element_strings [] = Some []"
| "element_strings (x # xs) =
     (case (if x = JUndefined \<or> x = JNull then Some [] else to_string x) of
        None \<Rightarrow> None
      | Some s \<Rightarrow> map_option ((#) s) (element_strings xs))"

text \<open>Truthiness, as \<^verbatim>\<open>!v\<close>, \<^verbatim>\<open>a || b\<close> and \<^verbatim>\<open>if (v)\<close> test it.\<close>

fun truthy :: "jsval \<Rightarrow> bool" where
  "truthy JUndefined = False"
| "truthy JNull = False"
| "truthy (JBool b) = b"
| "truthy (JNum s) = (s \<noteq> ''0'' \<and> s \<noteq> ''NaN'')"
| "truthy (JStr s) = (s \<noteq> [])"
| "truthy (JArr xs) = True"
| "truthy (JObj kvs) = True"
| "truthy (JNative k) = True"

definition js_or :: "jsval \<Rightarrow> jsval \<Rightarrow> jsval" where
  "js_or a b = (if truthy a then a else b)"

text \<open>
  An array pattern \<^verbatim>\<open>const [a, b] = v\<close> iterates \<open>v\<close>: an array yields its elements, a
  string its characters, and every other value of a message is not iterable
  (\<open>None\<close>: a \<^verbatim>\<open>TypeError\<close>). A position past the end is \<^verbatim>\<open>undefined\<close>.
\<close>

fun iterate :: "jsval \<Rightarrow> jsval list option" where
  "iterate (JArr xs) = Some xs"
| "iterate (JStr s) = Some (map (\<lambda>c. JStr [c]) s)"
| "iterate v = None"

definition element_at :: "jsval list \<Rightarrow> nat \<Rightarrow> jsval" where
  "element_at xs i = (if i < length xs then xs ! i else JUndefined)"

text \<open>
  The property read \<^verbatim>\<open>v[0]\<close>: a \<^verbatim>\<open>TypeError\<close> on \<^verbatim>\<open>null\<close> and
  \<^verbatim>\<open>undefined\<close>, the element of an array or string, the own property \<^verbatim>\<open>"0"\<close> of
  an object, and \<^verbatim>\<open>undefined\<close> on everything else.
\<close>

fun index0 :: "jsval \<Rightarrow> jsval option" where
  "index0 JUndefined = None"
| "index0 JNull = None"
| "index0 (JArr xs) = Some (element_at xs 0)"
| "index0 (JStr s) = Some (element_at (map (\<lambda>c. JStr [c]) s) 0)"
| "index0 (JObj kvs) = Some (case map_of kvs ''0'' of None \<Rightarrow> JUndefined | Some v \<Rightarrow> v)"
| "index0 v = Some JUndefined"

text \<open>
  Evaluating a template literal converts each substitution with \<^verbatim>\<open>ToString\<close>; the
  literal throws when one of them does. The log lines of the program are template
  literals, so a log line can throw.
\<close>

definition printable :: "jsval list \<Rightarrow> bool" where
  "printable vs = list_all (\<lambda>v. to_string v \<noteq> None) vs"

section \<open>Numbers and text\<close>

text \<open>
  \<^verbatim>\<open>jobCounter\<close> is a JavaScript number, a double. \<^verbatim>\<open>++jobCounter\<close> adds one
  exactly up to \<open>2 ^ 53\<close>; there \<open>2 ^ 53 + 1\<close> is not a double and the sum rounds
  back to \<open>2 ^ 53\<close>. Counting up from 0 reaches no other value.
\<close>

definition incr :: "nat \<Rightarrow> nat" where
  "incr n = (if n < 2 ^ 53 then n + 1 else n)"

text \<open>\<^verbatim>\<open>String(n)\<close> of a counter value: its decimal digits.\<close>

definition digit :: "nat \<Rightarrow> char" where
  "digit d = ''0123456789'' ! d"

fun dec :: "nat \<Rightarrow> string" where
  "dec n = (if n < 10 then [digit n] else dec (n div 10) @ [digit (n mod 10)])"

text \<open>\<^verbatim>\<open>s.includes(t)\<close> and \<^verbatim>\<open>s.repeat(n)\<close>.\<close>

fun str_includes :: "string \<Rightarrow> string \<Rightarrow> bool" where
  "str_includes [] t = (t = [])"
| "str_includes (c # cs) t = (take (length t) (c # cs) = t \<or> str_includes cs t)"

definition repeat :: "string \<Rightarrow> nat \<Rightarrow> string" where
  "repeat s n = concat (replicate n s)"

text \<open>
  A \<^verbatim>\<open>Buffer\<close> is a list of bytes. \<^verbatim>\<open>Buffer.from(s, 'hex')\<close> decodes pairs of
  hexadecimal digits and stops at the first pair that is not one;
  \<^verbatim>\<open>buf.toString('hex')\<close> writes two lower-case digits for each byte.
\<close>

type_synonym buffer = "8 word list"

definition hex_value :: "char \<Rightarrow> nat option" where
  "hex_value c =
     (case map_of (zip ''0123456789abcdef'' [0..<16]) c of
        Some v \<Rightarrow> Some v
      | None \<Rightarrow> map_of (zip ''ABCDEF'' [10..<16]) c)"

fun Buffer_from_hex :: "string \<Rightarrow> buffer" where
  "Buffer_from_hex (a # b # cs) =
     (case (hex_value a, hex_value b) of
        (Some h, Some l) \<Rightarrow> of_nat (16 * h + l) # Buffer_from_hex cs
      | _ \<Rightarrow> [])"
| "Buffer_from_hex cs = []"

definition hex_digit :: "nat \<Rightarrow> char" where
  "hex_digit d = ''0123456789abcdef'' ! d"

definition Buffer_toString_hex :: "buffer \<Rightarrow> string" where
  "Buffer_toString_hex buf =
     concat (map (\<lambda>b. [hex_digit (unat b div 16), hex_digit (unat b mod 16)]) buf)"

definition is_hex :: "string \<Rightarrow> bool" where
  "is_hex s = list_all (\<lambda>c. hex_value c \<noteq> None) s"

section \<open>Data model\<close>

text \<open>
  The error object of a failed node RPC, as the program reads it: \<^verbatim>\<open>err.code\<close> and
  \<^verbatim>\<open>err.message\<close>.
\<close>

record rpc_error =
  code :: int
  message :: string

text \<open>
  The reply of \<^verbatim>\<open>getblockchaininfo\<close>: two block heights and the verification
  progress, the value of the double. The program compares the progress with the literal
  \<^verbatim>\<open>0.999\<close>, whose double lies just below \<open>999 / 1000\<close> with no double in
  between, so for a double the comparison is the one with \<open>999 / 1000\<close>.
\<close>

record blockchain_info =
  blocks :: nat
  headers :: nat
  verificationprogress :: rat

record node_status =
  isSynced :: bool
  st_blocks :: nat
  st_headers :: nat
  verificationProgress :: rat

text \<open>
  The block template of \<^verbatim>\<open>getblocktemplate\<close>: the properties the program reads. Where
  two objects of the source have a property of the same name, the field of one of the
  records carries a prefix: \<open>t_\<close> on the template, \<open>j_\<close> on the job, \<open>st_\<close> on the node
  status and \<open>msg_\<close> on the message (whose \<^verbatim>\<open>id\<close> and \<^verbatim>\<open>method\<close> are names that
  Isabelle reserves).
\<close>

record template =
  previousblockhash :: jsval
  coinbasetxn :: jsval
  t_version :: jsval
  bits :: jsval
  curtime :: jsval
  t_progpow_header :: jsval
  t_progpow_mix_hash :: jsval
  merkle_root :: jsval
  randomx_seed :: jsval

text \<open>
  A job. The four last properties exist on the jobs of one algorithm only; a property
  that was never set reads as \<^verbatim>\<open>undefined\<close>.
\<close>

record job =
  job_id :: string
  j_algorithm :: jsval
  prevhash :: jsval
  coinbase :: jsval
  version :: jsval
  nbits :: jsval
  ntime :: jsval
  clean_jobs :: bool
  j_difficulty :: jsval
  progpow_header :: jsval
  progpow_mix_hash :: jsval
  merkle :: jsval
  seed_hash :: jsval

text \<open>
  An outbound frame, the object handed to \<^verbatim>\<open>JSON.stringify\<close>: a response
  \<^verbatim>\<open>{id, result, error}\<close> or a notification \<^verbatim>\<open>{id: null, method, params}\<close>.
\<close>

datatype frame =
    Response jsval jsval jsval
  | Notification string "jsval list"

text \<open>
  The session object of a connection. \<open>socket\<close> is the list of frames written to the
  connection so far, oldest first. \<open>extraNonce\<close> is \<open>None\<close> while the property has not
  been set.
\<close>

record client =
  socket :: "frame list"
  algorithm :: jsval
  authorized :: bool
  wallet :: jsval
  difficulty :: jsval
  extraNonce :: "buffer option"
  connected :: string

text \<open>An inbound message after \<^verbatim>\<open>const { id, method, params } = message\<close>.\<close>

record message =
  msg_id :: jsval
  msg_method :: jsval
  msg_params :: jsval

record submission =
  algo :: jsval
  worker :: jsval
  jobId :: jsval
  nonce :: jsval
  header :: jsval
  mixHash :: jsval

text \<open>
  The RPC client and the node behind it. The client is an object of the package
  \<^verbatim>\<open>bitcoin\<close>, which is not part of the source, so it is a parameter: what each of
  the three calls hands to its callback during one handler run, an error or a result
  (\<open>None\<close> for a result that is \<^verbatim>\<open>null\<close>). An error of \<open>getBlockchainInfo\<close> or
  \<open>getblocktemplate\<close> stands for every way the call can fail. For
  \<^verbatim>\<open>client.submitblock\<close> the source does not tell whether the client object has a
  method of this lower-case name: the field is \<open>None\<close> when it has none, and otherwise
  the function from the parameter list that the method is given to the answer.
\<close>

record backend =
  getBlockchainInfo :: "rpc_error + blockchain_info option"
  getblocktemplate :: "rpc_error + template option"
  submitblock :: "(jsval list \<Rightarrow> rpc_error + jsval) option"

datatype rpc_call =
    GetBlockchainInfo
  | GetBlockTemplate
  | SubmitBlock "jsval list"

text \<open>
  The process-wide state: the job counter, the table of live jobs, and the calls made
  to the node so far, oldest first, with their parameters.
\<close>

record proxy =
  jobCounter :: nat
  currentJobs :: "string \<rightharpoonup> job"
  rpc_calls :: "rpc_call list"

text \<open>
  An awaited promise resolves, rejects, or never settles. It never settles when the
  callback of the RPC throws: the exception leaves through the event loop and neither
  \<^verbatim>\<open>resolve\<close> nor \<^verbatim>\<open>reject\<close> is called.
\<close>

datatype ('e, 'a) promise = Resolved 'a | Rejected 'e | Pending

text \<open>
  The errors that \<^verbatim>\<open>createMiningJob\<close> and \<^verbatim>\<open>checkNodeStatus\<close> reject with, in the
  order of the constructors: \<^verbatim>\<open>new Error('Algorithm not specified')\<close>,
  \<^verbatim>\<open>new Error('No blockchain info received')\<close>, the error "Node is not fully synced"
  whose message carries the progress, \<^verbatim>\<open>new Error('Node is not ready for mining. ...')\<close>,
  \<^verbatim>\<open>new Error('No template received from node')\<close>, and the error object of the RPC
  passed on as it is. Their callers only log them. \<^verbatim>\<open>submitWork\<close> rejects with the error
  object of the RPC, in the second variant with \<^verbatim>\<open>new Error('Invalid algorithm')\<close>, and
  with the exception of the call \<^verbatim>\<open>client.submitblock(...)\<close> on a client that has no
  such method, which is thrown inside the executor of the promise; the handler sends the
  message of that error to the client.
\<close>

datatype job_error =
    AlgorithmNotSpecified
  | NoBlockchainInfo
  | NotSynced rat
  | NodeNotReady
  | NoTemplate
  | NodeError rpc_error

datatype submit_error =
    SubmitError rpc_error
  | InvalidAlgorithm
  | NotAFunction

definition submit_error_message :: "submit_error \<Rightarrow> string" where
  "submit_error_message e =
     (case e of
        SubmitError err \<Rightarrow> message err
      | InvalidAlgorithm \<Rightarrow> ''Invalid algorithm''
      | NotAFunction \<Rightarrow> ''client.submitblock is not a function'')"

datatype exception = TypeError

section \<open>Constants and shared functions\<close>

definition ALGORITHMS :: "(string \<times> string) list" where
  "ALGORITHMS =
     [(''progpow-veil'', ''progpow''), (''sha256d'', ''sha256d''), (''randomx-veil'', ''randomx'')]"

definition EXTRA_NONCE_BYTES :: nat where
  "EXTRA_NONCE_BYTES = 4"

text \<open>
  The lookup \<^verbatim>\<open>ALGORITHMS[k]\<close> on the object literal: an own property, else a
  property inherited from \<^verbatim>\<open>Object.prototype\<close>, else \<^verbatim>\<open>undefined\<close>.
\<close>

definition ALGORITHMS_get :: "string \<Rightarrow> jsval" where
  "ALGORITHMS_get k =
     (case map_of ALGORITHMS k of
        Some a \<Rightarrow> JStr a
      | None \<Rightarrow> if k \<in> set Object_prototype then JNative k else JUndefined)"

definition getDifficultyForAlgo :: "jsval \<Rightarrow> jsval" where
  "getDifficultyForAlgo a =
     (if a = JStr ''progpow'' then JNum ''0.002''
      else if a = JStr ''sha256d'' then JNum ''0.01''
      else if a = JStr ''randomx'' then JNum ''0.005''
      else JNum ''0.01'')"

definition log_call :: "rpc_call \<Rightarrow> proxy \<Rightarrow> proxy" where
  "log_call c g = g\<lparr>rpc_calls := rpc_calls g @ [c]\<rparr>"

definition socket_write :: "frame \<Rightarrow> client \<Rightarrow> client" where
  "socket_write f c = c\<lparr>socket := socket c @ [f]\<rparr>"

text \<open>
  The job object literal of \<^verbatim>\<open>createMiningJob\<close> and the \<^verbatim>\<open>switch\<close> that follows
  it (the same text in both variants), for the rendered algorithm \<open>a\<close> and the
  incremented counter \<open>n\<close>.
\<close>

definition job_of :: "string \<Rightarrow> nat \<Rightarrow> jsval \<Rightarrow> template \<Rightarrow> job" where
  "job_of a n alg t =
     \<lparr>job_id = a @ ''-'' @ dec n,
      j_algorithm = alg,
      prevhash = previousblockhash t,
      coinbase = coinbasetxn t,
      version = t_version t,
      nbits = bits t,
      ntime = curtime t,
      clean_jobs = True,
      j_difficulty = getDifficultyForAlgo alg,
      progpow_header = (if alg = JStr ''progpow'' then t_progpow_header t else JUndefined),
      progpow_mix_hash = (if alg = JStr ''progpow'' then t_progpow_mix_hash t else JUndefined),
      merkle = (if alg = JStr ''sha256d'' then merkle_root t else JUndefined),
      seed_hash = (if alg = JStr ''randomx'' then randomx_seed t else JUndefined)\<rparr>"

definition internal_error :: "jsval \<Rightarrow> frame" where
  "internal_error i = Response i JNull (JStr ''Internal error'')"

definition accepted :: "jsval \<Rightarrow> frame" where
  "accepted i = Response i (JBool True) JNull"

section \<open>First variant\<close>

text \<open>
  A handler is modelled from its call to the point where its promise settles, as one step
  on the session and the process state; what other handlers do while it awaits the node is
  not part of the model. A write to the socket is taken to succeed. Log lines are modelled
  where they can throw, as the test that their template literal renders.
\<close>

definition checkNodeStatus :: "backend \<Rightarrow> proxy \<Rightarrow> (job_error + node_status) \<times> proxy" where
  "checkNodeStatus be g =
     (case getBlockchainInfo be of
        Inl err \<Rightarrow> Inl (NodeError err)
      | Inr None \<Rightarrow> Inl NoBlockchainInfo
      | Inr (Some info) \<Rightarrow>
          Inr \<lparr>isSynced = (verificationprogress info > 999 / 1000),
               st_blocks = blocks info,
               st_headers = headers info,
               verificationProgress = verificationprogress info\<rparr>,
      log_call GetBlockchainInfo g)"

definition createMiningJob1 ::
  "backend \<Rightarrow> jsval \<Rightarrow> proxy \<Rightarrow> (job_error, job) promise \<times> proxy" where
  "createMiningJob1 be a g =
     (if \<not> truthy a then (Rejected AlgorithmNotSpecified, g)
      else
        (case checkNodeStatus be g of
           (Inl e, g1) \<Rightarrow> (Rejected e, g1)
         | (Inr nodeStatus, g1) \<Rightarrow>
             (if \<not> isSynced nodeStatus
              then (Rejected (NotSynced (verificationProgress nodeStatus)), g1)
              else
                (let g2 = log_call GetBlockTemplate g1 in
                 (case getblocktemplate be of
                    Inl err \<Rightarrow>
                      (if code err = - 10 \<or> str_includes (message err) ''syncing''
                          \<or> str_includes (message err) ''loading''
                       then (Rejected NodeNotReady, g2)
                       else (Rejected (NodeError err), g2))
                  | Inr None \<Rightarrow> (Rejected NoTemplate, g2)
                  | Inr (Some t) \<Rightarrow>
                      (case to_string a of
                         None \<Rightarrow> (Pending, g2)
                       | Some s \<Rightarrow>
                           (let n = incr (jobCounter g2);
                                j = job_of s n a t
                            in (Resolved j,
                                g2\<lparr>jobCounter := n,
                                   currentJobs := (currentJobs g2)(job_id j \<mapsto> j)\<rparr>))))))))"

definition sendMiningJob1 :: "client \<Rightarrow> job \<Rightarrow> client" where
  "sendMiningJob1 c j =
     socket_write
       (Notification ''mining.notify''
          [JStr (job_id j), prevhash j, js_or JUndefined (JStr []),
           js_or JUndefined (JStr []), js_or JUndefined (JArr []),
           version j, nbits j, ntime j, JBool True]) c"

definition submitWork1 ::
  "backend \<Rightarrow> submission \<Rightarrow> proxy \<Rightarrow> (submit_error + jsval) \<times> proxy" where
  "submitWork1 be sub g =
     (let ps = (if algo sub = JStr ''progpow''
                then [header sub, mixHash sub, nonce sub]
                else [header sub, nonce sub])
      in (case submitblock be of
            None \<Rightarrow> (Inl NotAFunction, g)
          | Some f \<Rightarrow>
              (case f ps of
                 Inl err \<Rightarrow> Inl (SubmitError err)
               | Inr r \<Rightarrow> Inr r,
               log_call (SubmitBlock ps) g)))"

definition subscribe1 ::
  "backend \<Rightarrow> client \<Rightarrow> jsval \<Rightarrow> jsval \<Rightarrow> proxy
     \<Rightarrow> (exception, frame option) promise \<times> client \<times> proxy" where
  "subscribe1 be c i ps g =
     (case iterate ps of
        None \<Rightarrow> (Resolved (Some (internal_error i)), c, g)
      | Some xs \<Rightarrow>
          let userAgent = (if element_at xs 0 = JUndefined then JStr ''wildrig-multi''
                           else element_at xs 0)
          in
          (if \<not> truthy (ALGORITHMS_get ''progpow-veil'')
           then (Resolved (Some (Response i JNull (JStr ''Unsupported algorithm''))), c, g)
           else
            (let buf = Buffer_from_hex (repeat ''00'' EXTRA_NONCE_BYTES);
                c1 = c\<lparr>algorithm := JStr ''progpow'',
                       difficulty := getDifficultyForAlgo (JStr ''progpow''),
                       extraNonce := Some buf\<rparr>;
                c2 = socket_write (Notification ''mining.set_difficulty'' [difficulty c1]) c1
            in
            (if \<not> printable [userAgent] then (Resolved (Some (internal_error i)), c2, g)
             else
              (let c3 = socket_write
                         (Response i
                            (JArr [JArr [JArr [JStr ''mining.set_difficulty'',
                                               JStr ''b4b6693b72a50c7116db18d6497cac52''],
                                         JArr [JStr ''mining.notify'',
                                               JStr ''ae6812eb4cd7735a302a8a9dd95cf71f'']],
                                   JStr (Buffer_toString_hex buf),
                                   JNum (dec EXTRA_NONCE_BYTES)])
                            JNull) c2
              in
              (case createMiningJob1 be (algorithm c3) g of
                 (Resolved j, g') \<Rightarrow> (Resolved None, sendMiningJob1 c3 j, g')
               | (Rejected e, g') \<Rightarrow> (Resolved None, c3, g')
               | (Pending, g') \<Rightarrow> (Pending, c3, g')))))))"

definition authorize1 ::
  "client \<Rightarrow> jsval \<Rightarrow> jsval \<Rightarrow> proxy \<Rightarrow> (exception, frame option) promise \<times> client \<times> proxy" where
  "authorize1 c i ps g =
     (let c1 = socket_write (accepted i) c in
      (case index0 ps of
         None \<Rightarrow> (Resolved (Some (internal_error i)), c1, g)
       | Some u \<Rightarrow>
           (if \<not> printable [u] then (Resolved (Some (internal_error i)), c1, g)
            else (Resolved None, c1, g))))"

definition submit1 ::
  "backend \<Rightarrow> client \<Rightarrow> jsval \<Rightarrow> jsval \<Rightarrow> proxy
     \<Rightarrow> (exception, frame option) promise \<times> client \<times> proxy" where
  "submit1 be c i ps g =
     (case iterate ps of
        None \<Rightarrow> (Resolved (Some (internal_error i)), c, g)
      | Some xs \<Rightarrow>
          (if \<not> printable [element_at xs 1, element_at xs 2]
           then (Resolved (Some (internal_error i)), c, g)
           else
            (let sub = \<lparr>algo = algorithm c,
                       worker = js_or (element_at xs 0) (JStr ''local_worker''),
                       jobId = element_at xs 1,
                       nonce = element_at xs 2,
                       header = element_at xs 3,
                       mixHash = element_at xs 4\<rparr>
            in
            (case submitWork1 be sub g of
               (Inr r, g') \<Rightarrow>
                 (if printable [element_at xs 0, algorithm c]
                  then (Resolved (Some (accepted i)), c, g')
                  else (Resolved (Some (internal_error i)), c, g'))
             | (Inl e, g') \<Rightarrow>
                 (if printable [element_at xs 0, algorithm c]
                  then (Resolved (Some (Response i JNull (JStr (submit_error_message e)))),
                        c, g')
                  else (Resolved (Some (internal_error i)), c, g'))))))"

definition handleStratumMethod1 ::
  "backend \<Rightarrow> client \<Rightarrow> message \<Rightarrow> proxy
     \<Rightarrow> (exception, frame option) promise \<times> client \<times> proxy" where
  "handleStratumMethod1 be c m g =
     (case to_string (msg_method m) of
        None \<Rightarrow> (Rejected TypeError, c, g)
      | Some name \<Rightarrow>
          (if to_string (msg_id m) = None then (Rejected TypeError, c, g)
           else if msg_method m = JStr ''mining.subscribe''
           then subscribe1 be c (msg_id m) (msg_params m) g
           else if msg_method m = JStr ''mining.authorize''
           then authorize1 c (msg_id m) (msg_params m) g
           else if msg_method m = JStr ''mining.submit''
           then submit1 be c (msg_id m) (msg_params m) g
           else (Resolved (Some (Response (msg_id m) JNull
                                   (JStr (''Unknown method '' @ name)))),
                 c, g)))"

definition connection1 :: "string \<Rightarrow> client" where
  "connection1 now =
     \<lparr>socket = [], algorithm = JNull, authorized = True, wallet = JStr ''local_worker'',
      difficulty = JNull, extraNonce = None, connected = now\<rparr>"

text \<open>
  The body of the \<^verbatim>\<open>forEach\<close> callback of the connection, from the parsed message on:
  a truthy response is written to the socket, a rejected handler is answered with
  "Invalid message", and a handler that never settles writes nothing more.
\<close>

definition invalid_message :: frame where
  "invalid_message = Response JNull JNull (JStr ''Invalid message'')"

definition on_message1 :: "backend \<Rightarrow> client \<Rightarrow> message \<Rightarrow> proxy \<Rightarrow> client \<times> proxy" where
  "on_message1 be c m g =
     (case handleStratumMethod1 be c m g of
        (Resolved (Some f), c', g') \<Rightarrow> (socket_write f c', g')
      | (Resolved None, c', g') \<Rightarrow> (c', g')
      | (Rejected e, c', g') \<Rightarrow> (socket_write invalid_message c', g')
      | (Pending, c', g') \<Rightarrow> (c', g'))"

text \<open>
  The session of a connection accepted at \<open>now\<close> after the lines \<open>steps\<close>, in the
  order they were received: a line that parses to a message comes as that message, with
  the answers of the node and the process state at that moment, and a line that does not
  as \<open>None\<close>; it is answered with "Invalid message". The session object is written
  nowhere else in the first variant.
\<close>

definition session1 :: "string \<Rightarrow> (backend \<times> message option \<times> proxy) list \<Rightarrow> client" where
  "session1 now steps =
     foldl (\<lambda>c (be, line, g).
              (case line of
                 None \<Rightarrow> socket_write invalid_message c
               | Some m \<Rightarrow> fst (on_message1 be c m g)))
       (connection1 now) steps"

section \<open>Second variant\<close>

definition createMiningJob2 ::
  "backend \<Rightarrow> jsval \<Rightarrow> proxy \<Rightarrow> (job_error, job) promise \<times> proxy" where
  "createMiningJob2 be a g =
     (let g1 = log_call GetBlockTemplate g in
      (case getblocktemplate be of
         Inl err \<Rightarrow> (Rejected (NodeError err), g1)
       | Inr tpl \<Rightarrow>
           (case to_string a of
              None \<Rightarrow> (Pending, g1)
            | Some s \<Rightarrow>
                (let n = incr (jobCounter g1);
                     g2 = g1\<lparr>jobCounter := n\<rparr>
                 in
                 (case tpl of
                    None \<Rightarrow> (Pending, g2)
                  | Some t \<Rightarrow>
                      (let j = job_of s n a t
                       in (Resolved j,
                           g2\<lparr>currentJobs := (currentJobs g2)(job_id j \<mapsto> j)\<rparr>)))))))"

definition sendMiningJob2 :: "client \<Rightarrow> job \<Rightarrow> client" where
  "sendMiningJob2 c j =
     (if \<not> authorized c then c
      else
        socket_write
          (Notification ''mining.notify''
             ([JStr (job_id j), prevhash j, coinbase j, version j, nbits j, ntime j, JBool True]
              @ (if algorithm c = JStr ''progpow'' then [progpow_header j, progpow_mix_hash j]
                 else if algorithm c = JStr ''sha256d'' then [merkle j]
                 else if algorithm c = JStr ''randomx'' then [seed_hash j]
                 else []))) c)"

definition submitWork2 ::
  "backend \<Rightarrow> submission \<Rightarrow> proxy \<Rightarrow> (submit_error + jsval) \<times> proxy" where
  "submitWork2 be sub g =
     (if algo sub = JStr ''progpow'' \<or> algo sub = JStr ''sha256d'' \<or> algo sub = JStr ''randomx''
      then
        (let ps = (if algo sub = JStr ''progpow''
                   then [header sub, mixHash sub, nonce sub]
                   else [header sub, nonce sub])
         in (case submitblock be of
               None \<Rightarrow> (Inl NotAFunction, g)
             | Some f \<Rightarrow>
                 (case f ps of
                    Inl err \<Rightarrow> Inl (SubmitError err)
                  | Inr r \<Rightarrow> Inr r,
                  log_call (SubmitBlock ps) g)))
      else (Inl InvalidAlgorithm, g))"

definition subscribe2 ::
  "client \<Rightarrow> jsval \<Rightarrow> jsval \<Rightarrow> proxy \<Rightarrow> (exception, frame option) promise \<times> client \<times> proxy" where
  "subscribe2 c i ps g =
     (case iterate ps of
        None \<Rightarrow> (Resolved (Some (internal_error i)), c, g)
      | Some xs \<Rightarrow>
          (case to_string (element_at xs 0) of
             None \<Rightarrow> (Resolved (Some (internal_error i)), c, g)
           | Some k \<Rightarrow>
               (if \<not> truthy (ALGORITHMS_get k)
                then (Resolved (Some (Response i JNull (JStr ''Unsupported algorithm''))), c, g)
                else
                  (let c1 = c\<lparr>algorithm := ALGORITHMS_get k,
                              difficulty := getDifficultyForAlgo (ALGORITHMS_get k)\<rparr>;
                       c2 = socket_write
                              (Notification ''mining.set_difficulty'' [difficulty c1]) c1
                   in
                   (case (to_string i, to_string (element_at xs 1)) of
                      (Some si, Some clientId) \<Rightarrow>
                        (Resolved
                           (Some (Response i
                                    (JArr [JArr [JArr [JStr ''mining.set_difficulty'', JStr si],
                                                 JArr [JStr ''mining.notify'', JStr si]],
                                           JStr clientId,
                                           JStr ''08''])
                                    JNull)),
                         c2, g)
                    | _ \<Rightarrow> (Resolved (Some (internal_error i)), c2, g))))))"

definition authorize2 ::
  "backend \<Rightarrow> client \<Rightarrow> jsval \<Rightarrow> jsval \<Rightarrow> proxy
     \<Rightarrow> (exception, frame option) promise \<times> client \<times> proxy" where
  "authorize2 be c i ps g =
     (case iterate ps of
        None \<Rightarrow> (Resolved (Some (internal_error i)), c, g)
      | Some xs \<Rightarrow>
          (if \<not> printable [element_at xs 0, element_at xs 1]
           then (Resolved (Some (internal_error i)), c, g)
           else
             (let c1 = c\<lparr>authorized := True, wallet := element_at xs 0\<rparr> in
              (if \<not> printable [element_at xs 0, algorithm c1]
               then (Resolved (Some (internal_error i)), c1, g)
               else
                 (case createMiningJob2 be (algorithm c1) g of
                    (Resolved j, g') \<Rightarrow> (Resolved (Some (accepted i)), sendMiningJob2 c1 j, g')
                  | (Rejected e, g') \<Rightarrow> (Resolved (Some (accepted i)), c1, g')
                  | (Pending, g') \<Rightarrow> (Pending, c1, g'))))))"

definition submit2 ::
  "backend \<Rightarrow> client \<Rightarrow> jsval \<Rightarrow> jsval \<Rightarrow> proxy
     \<Rightarrow> (exception, frame option) promise \<times> client \<times> proxy" where
  "submit2 be c i ps g =
     (if \<not> authorized c
      then (Resolved (Some (Response i JNull (JStr ''Unauthorized worker''))), c, g)
      else
        (case iterate ps of
           None \<Rightarrow> (Resolved (Some (internal_error i)), c, g)
         | Some xs \<Rightarrow>
             (let sub = \<lparr>algo = algorithm c,
                         worker = element_at xs 0,
                         jobId = element_at xs 1,
                         nonce = element_at xs 2,
                         header = element_at xs 3,
                         mixHash = element_at xs 4\<rparr>
              in
              (case submitWork2 be sub g of
                 (Inr r, g') \<Rightarrow>
                   (if printable [element_at xs 0, algorithm c]
                    then (Resolved (Some (accepted i)), c, g')
                    else (Resolved (Some (internal_error i)), c, g'))
               | (Inl e, g') \<Rightarrow>
                   (if printable [element_at xs 0, algorithm c]
                    then (Resolved (Some (Response i JNull (JStr (submit_error_message e)))),
                          c, g')
                    else (Resolved (Some (internal_error i)), c, g'))))))"

text \<open>
  The \<^verbatim>\<open>switch\<close> of the second variant has no \<^verbatim>\<open>default\<close> branch: for any other
  method the function returns \<^verbatim>\<open>undefined\<close>, here \<open>Resolved None\<close>.
\<close>

definition handleStratumMethod2 ::
  "backend \<Rightarrow> client \<Rightarrow> message \<Rightarrow> proxy
     \<Rightarrow> (exception, frame option) promise \<times> client \<times> proxy" where
  "handleStratumMethod2 be c m g =
     (if msg_method m = JStr ''mining.subscribe''
      then subscribe2 c (msg_id m) (msg_params m) g
      else if msg_method m = JStr ''mining.authorize''
      then authorize2 be c (msg_id m) (msg_params m) g
      else if msg_method m = JStr ''mining.submit''
      then submit2 be c (msg_id m) (msg_params m) g
      else (Resolved None, c, g))"

definition connection2 :: "string \<Rightarrow> client" where
  "connection2 now =
     \<lparr>socket = [], algorithm = JNull, authorized = False, wallet = JNull,
      difficulty = JNull, extraNonce = None, connected = now\<rparr>"

definition on_message2 :: "backend \<Rightarrow> client \<Rightarrow> message \<Rightarrow> proxy \<Rightarrow> client \<times> proxy" where
  "on_message2 be c m g =
     (case handleStratumMethod2 be c m g of
        (Resolved (Some f), c', g') \<Rightarrow> (socket_write f c', g')
      | (Resolved None, c', g') \<Rightarrow> (c', g')
      | (Rejected e, c', g') \<Rightarrow> (socket_write invalid_message c', g')
      | (Pending, c', g') \<Rightarrow> (c', g'))"

text \<open>The process starts with no job issued and no call made.\<close>

definition start :: proxy where
  "start = \<lparr>jobCounter = 0, currentJobs = Map.empty, rpc_calls = []\<rparr>"






section \<open>Example inputs\<close>

text \<open>
  Concrete inputs for the closed theorems below: a block template; a node that reports the
  verification progress \<open>p\<close>, hands out that template and accepts every block; and a
  submit, a subscribe and an authorize message.
\<close>

definition template0 :: template where
  "template0 =
     \<lparr>previousblockhash = JStr ''00ab'', coinbasetxn = JNull, t_version = JNum ''536870912'',
      bits = JStr ''1d00ffff'', curtime = JNum ''1700000000'', t_progpow_header = JStr ''aa'',
      t_progpow_mix_hash = JStr ''bb'', merkle_root = JStr ''cc'', randomx_seed = JStr ''dd''\<rparr>"

definition node :: "rat \<Rightarrow> backend" where
  "node p =
     \<lparr>getBlockchainInfo = Inr (Some \<lparr>blocks = 100, headers = 100, verificationprogress = p\<rparr>),
      getblocktemplate = Inr (Some template0),
      submitblock = Some (\<lambda>ps. Inr JNull)\<rparr>"

definition submit_message :: message where
  "submit_message =
     \<lparr>msg_id = JNum ''4'', msg_method = JStr ''mining.submit'',
      msg_params = JArr [JStr ''w1'', JStr ''progpow-1'', JStr ''0f'', JStr ''aa'', JStr ''bb'']\<rparr>"

definition subscribe_message :: "string \<Rightarrow> message" where
  "subscribe_message a =
     \<lparr>msg_id = JNum ''1'', msg_method = JStr ''mining.subscribe'', msg_params = JArr [JStr a]\<rparr>"

definition authorize_message :: message where
  "authorize_message =
     \<lparr>msg_id = JNum ''2'', msg_method = JStr ''mining.authorize'',
      msg_params = JArr [JStr ''alice'', JStr ''x'']\<rparr>"

section \<open>Properties\<close>

subsection \<open>Auxiliary facts\<close>

declare dec.simps [simp del]

lemma rpc_calls_log_call: "rpc_calls (log_call x g) = rpc_calls g @ [x]"
  by (simp add: log_call_def)

lemma supported_iff:
  "v \<in> JStr ` snd ` set ALGORITHMS \<longleftrightarrow>
     v = JStr ''progpow'' \<or> v = JStr ''sha256d'' \<or> v = JStr ''randomx''"
  by (auto simp: ALGORITHMS_def)

lemma repeat_00: "repeat ''00'' EXTRA_NONCE_BYTES = ''00000000''"
  by (simp add: repeat_def EXTRA_NONCE_BYTES_def numeral_eq_Suc)

lemma hex_value_0: "hex_value CHR ''0'' = Some 0"
  by (simp add: hex_value_def upt_rec)

lemma extranonce_bytes: "Buffer_from_hex (repeat ''00'' EXTRA_NONCE_BYTES) = [0, 0, 0, 0]"
  by (simp add: repeat_00 hex_value_0)

lemma extranonce_hex: "Buffer_toString_hex [0, 0, 0, 0] = ''00000000''"
  by (simp add: Buffer_toString_hex_def hex_digit_def)


lemma dec_4: "dec EXTRA_NONCE_BYTES = ''4''"
  by (simp add: EXTRA_NONCE_BYTES_def dec.simps digit_def)

text \<open>No message changes the \<open>authorized\<close> flag or the wallet of a session of the first variant.\<close>

lemma socket_write_fields:
  "authorized (socket_write f c) = authorized c \<and> wallet (socket_write f c) = wallet c"
  by (simp add: socket_write_def)

lemma subscribe1_fields:
  "authorized (fst (snd (subscribe1 be c i ps g))) = authorized c
   \<and> wallet (fst (snd (subscribe1 be c i ps g))) = wallet c"
proof (cases "createMiningJob1 be (JStr ''progpow'') g")
  case (Pair r g')
  then show ?thesis
    by (cases r; cases "iterate ps")
       (simp_all add: subscribe1_def Let_def socket_write_def sendMiningJob1_def)
qed

lemma authorize1_fields:
  "authorized (fst (snd (authorize1 c i ps g))) = authorized c
   \<and> wallet (fst (snd (authorize1 c i ps g))) = wallet c"
  by (simp add: authorize1_def Let_def socket_write_def split: option.splits)

lemma submit1_fields:
  "authorized (fst (snd (submit1 be c i ps g))) = authorized c
   \<and> wallet (fst (snd (submit1 be c i ps g))) = wallet c"
  by (simp add: submit1_def Let_def split: option.splits prod.splits sum.splits)

lemma handleStratumMethod1_fields:
  "authorized (fst (snd (handleStratumMethod1 be c m g))) = authorized c
   \<and> wallet (fst (snd (handleStratumMethod1 be c m g))) = wallet c"
  by (cases "to_string (msg_method m)")
     (simp_all add: handleStratumMethod1_def subscribe1_fields authorize1_fields submit1_fields)

lemma on_message1_handler_fields:
  "authorized (fst (on_message1 be c m g)) = authorized (fst (snd (handleStratumMethod1 be c m g)))
   \<and> wallet (fst (on_message1 be c m g)) = wallet (fst (snd (handleStratumMethod1 be c m g)))"
  by (simp add: on_message1_def socket_write_def
           split: prod.splits promise.splits option.splits)

lemma on_message1_fields:
  "authorized (fst (on_message1 be c m g)) = authorized c
   \<and> wallet (fst (on_message1 be c m g)) = wallet c"
  by (simp add: on_message1_handler_fields handleStratumMethod1_fields)

subsection \<open>C1: the authorization gate of submit\<close>

lemma submit2_unauthorized:
  "\<not> authorized c \<Longrightarrow>
     submit2 be c i ps g = (Resolved (Some (Response i JNull (JStr ''Unauthorized worker''))), c, g)"
  by (simp add: submit2_def)

lemma session1_authorized: "authorized (session1 now steps)"
proof -
  have "authorized (foldl (\<lambda>c (be, line, g).
                      (case line of
                         None \<Rightarrow> socket_write invalid_message c
                       | Some m \<Rightarrow> fst (on_message1 be c m g))) c steps)"
    if "authorized c" for c
    using that
  proof (induction steps arbitrary: c)
    case Nil
    then show ?case by simp
  next
    case (Cons x steps)
    obtain be line g where x: "x = (be, line, g)"
      by (cases x)
    show ?case
      using Cons.prems
      by (cases line)
         (simp_all add: x Cons.IH socket_write_fields on_message1_fields)
  qed
  then show ?thesis
    by (simp add: session1_def connection1_def)
qed

text \<open>
  C1. A session whose \<open>authorized\<close> flag is false that sends \<^verbatim>\<open>mining.submit\<close> is
  answered with the error "Unauthorized worker"; the session and the process state stay as
  they were, so \<^verbatim>\<open>submitblock\<close> is not called. This is the gate of the second variant.
  The submit branch of the first variant has no check of its own, and needs none: a
  session of the first variant is created with the flag true and no line it receives
  changes the flag, so no session of the first variant has the flag false.
\<close>

theorem submit_gate:
  assumes "\<not> authorized c"
  shows "handleStratumMethod2 be c
           \<lparr>msg_id = i, msg_method = JStr ''mining.submit'', msg_params = ps\<rparr> g
           = (Resolved (Some (Response i JNull (JStr ''Unauthorized worker''))), c, g)
       \<and> on_message2 be c \<lparr>msg_id = i, msg_method = JStr ''mining.submit'', msg_params = ps\<rparr> g
           = (socket_write (Response i JNull (JStr ''Unauthorized worker'')) c, g)
       \<and> rpc_calls (snd (on_message2 be c
             \<lparr>msg_id = i, msg_method = JStr ''mining.submit'', msg_params = ps\<rparr> g))
           = rpc_calls g
       \<and> authorized (session1 now steps)"
  using assms
  by (simp add: handleStratumMethod2_def on_message2_def submit2_unauthorized
        session1_authorized)

text \<open>
  The gate at a fresh connection of the second variant: the error frame is the only frame
  written and the process state is the initial one. A connection of the first variant that
  has received a line that is not JSON and a submit is authorized.
\<close>

theorem submit_gate_witness:
  "\<not> authorized (connection2 ''t'')
   \<and> on_message2 (node 1) (connection2 ''t'') submit_message start
       = ((connection2 ''t'')
            \<lparr>socket := [Response (JNum ''4'') JNull (JStr ''Unauthorized worker'')]\<rparr>, start)
   \<and> authorized (session1 ''t'' [(node 1, None, start), (node 1, Some submit_message, start)])"
  using submit_gate [of "connection2 ''t''" "node 1" "JNum ''4''" "msg_params submit_message" start
      "''t''" "[(node 1, None, start), (node 1, Some submit_message, start)]"]
  by (simp add: connection2_def submit_message_def socket_write_def)

subsection \<open>C2: the sync check of createMiningJob\<close>

lemma checkNodeStatus_calls: "snd (checkNodeStatus be g) = log_call GetBlockchainInfo g"
  by (simp add: checkNodeStatus_def)

lemma createMiningJob1_not_synced:
  assumes "truthy a" and "getBlockchainInfo be = Inr (Some info)"
    and "verificationprogress info \<le> 999 / 1000"
  shows "createMiningJob1 be a g =
           (Rejected (NotSynced (verificationprogress info)), log_call GetBlockchainInfo g)"
  using assms by (simp add: createMiningJob1_def checkNodeStatus_def not_less [symmetric])

lemma createMiningJob1_first_call:
  assumes "truthy a"
  shows "\<exists>rest. rpc_calls (snd (createMiningJob1 be a g)) = rpc_calls g @ GetBlockchainInfo # rest"
  using assms
  by (auto simp: createMiningJob1_def checkNodeStatus_def log_call_def Let_def
           split: sum.splits option.splits)

text \<open>
  C2, as amended. In the first variant, when the node reports a verification progress that
  is not greater than 0.999, \<^verbatim>\<open>createMiningJob\<close> fails with the not-synced error
  carrying that progress for every algorithm value that is truthy, and with "Algorithm not
  specified" for one that is not; either way the job table and the job counter stay as they
  were. For a truthy algorithm the first RPC of the call is \<^verbatim>\<open>getblockchaininfo\<close>,
  whatever the node answers.
\<close>

theorem createMiningJob1_sync_check:
  assumes "getBlockchainInfo be = Inr (Some info)"
    and "verificationprogress info \<le> 999 / 1000"
  shows "createMiningJob1 be a g =
           (if truthy a
            then (Rejected (NotSynced (verificationprogress info)), log_call GetBlockchainInfo g)
            else (Rejected AlgorithmNotSpecified, g))
       \<and> currentJobs (snd (createMiningJob1 be a g)) = currentJobs g
       \<and> jobCounter (snd (createMiningJob1 be a g)) = jobCounter g
       \<and> (truthy a \<longrightarrow>
            (\<exists>rest. rpc_calls (snd (createMiningJob1 be' a g')) =
                      rpc_calls g' @ GetBlockchainInfo # rest))"
proof (cases "truthy a")
  case True
  then show ?thesis
    using createMiningJob1_not_synced [OF True assms, of g] createMiningJob1_first_call [OF True]
    by (simp add: log_call_def)
next
  case False
  then show ?thesis by (simp add: createMiningJob1_def)
qed

text \<open>The scenario of C2: at progress 0.5 the call fails and registers nothing.\<close>

theorem createMiningJob1_sync_check_witness:
  "createMiningJob1 (node (1 / 2)) (JStr ''progpow'') start =
     (Rejected (NotSynced (1 / 2)), start\<lparr>rpc_calls := [GetBlockchainInfo]\<rparr>)
   \<and> currentJobs (snd (createMiningJob1 (node (1 / 2)) (JStr ''progpow'') start)) = Map.empty"
  using createMiningJob1_sync_check [of "node (1 / 2)"
      "\<lparr>blocks = 100, headers = 100, verificationprogress = 1 / 2\<rparr>" "JStr ''progpow''" start]
  by (simp add: node_def start_def log_call_def)

text \<open>
  C2 fails on the second variant, whose \<^verbatim>\<open>createMiningJob\<close> never asks for the sync
  status: at progress 0.5 it requests a template, resolves with a job and registers it.
\<close>

theorem createMiningJob2_no_sync_check:
  "getBlockchainInfo (node (1 / 2)) =
     Inr (Some \<lparr>blocks = 100, headers = 100, verificationprogress = 1 / 2\<rparr>)
   \<and> fst (createMiningJob2 (node (1 / 2)) (JStr ''progpow'') start) =
       Resolved (job_of ''progpow'' 1 (JStr ''progpow'') template0)
   \<and> currentJobs (snd (createMiningJob2 (node (1 / 2)) (JStr ''progpow'') start)) ''progpow-1'' =
       Some (job_of ''progpow'' 1 (JStr ''progpow'') template0)
   \<and> rpc_calls (snd (createMiningJob2 (node (1 / 2)) (JStr ''progpow'') start)) = [GetBlockTemplate]"
  by (simp add: createMiningJob2_def node_def start_def log_call_def incr_def Let_def
        job_of_def dec.simps digit_def)

subsection \<open>C3: job ids and the job counter\<close>





























subsection \<open>C4: the parameters of submitblock\<close>

lemma submitWork1_present:
  assumes "submitblock be = Some f"
  shows "submitWork1 be sub g =
           (case f (if algo sub = JStr ''progpow''
                    then [header sub, mixHash sub, nonce sub]
                    else [header sub, nonce sub]) of
              Inl err \<Rightarrow> Inl (SubmitError err)
            | Inr r \<Rightarrow> Inr r,
            log_call (SubmitBlock (if algo sub = JStr ''progpow''
                                   then [header sub, mixHash sub, nonce sub]
                                   else [header sub, nonce sub])) g)"
  using assms by (simp add: submitWork1_def Let_def)

lemma submitWork1_absent:
  assumes "submitblock be = None"
  shows "submitWork1 be sub g = (Inl NotAFunction, g)"
  using assms by (simp add: submitWork1_def Let_def)

lemma submitWork2_present:
  assumes "submitblock be = Some f"
  shows "submitWork2 be sub g =
           (if algo sub \<in> JStr ` snd ` set ALGORITHMS
            then (case f (if algo sub = JStr ''progpow''
                          then [header sub, mixHash sub, nonce sub]
                          else [header sub, nonce sub]) of
                    Inl err \<Rightarrow> Inl (SubmitError err)
                  | Inr r \<Rightarrow> Inr r,
                  log_call (SubmitBlock (if algo sub = JStr ''progpow''
                                         then [header sub, mixHash sub, nonce sub]
                                         else [header sub, nonce sub])) g)
            else (Inl InvalidAlgorithm, g))"
  using assms by (simp add: submitWork2_def Let_def supported_iff)

lemma submitWork2_absent:
  assumes "submitblock be = None"
  shows "submitWork2 be sub g =
           (Inl (if algo sub \<in> JStr ` snd ` set ALGORITHMS then NotAFunction
                 else InvalidAlgorithm), g)"
  using assms by (simp add: submitWork2_def Let_def supported_iff)

lemma submit1_present:
  assumes "submitblock be = Some f" and "printable [element_at xs 1, element_at xs 2]"
  shows "submit1 be c i (JArr xs) g =
           (Resolved (Some
              (if printable [element_at xs 0, algorithm c]
               then (case f (if algorithm c = JStr ''progpow''
                             then [element_at xs 3, element_at xs 4, element_at xs 2]
                             else [element_at xs 3, element_at xs 2]) of
                       Inl err \<Rightarrow> Response i JNull (JStr (message err))
                     | Inr r \<Rightarrow> accepted i)
               else internal_error i)),
            c,
            log_call (SubmitBlock (if algorithm c = JStr ''progpow''
                                   then [element_at xs 3, element_at xs 4, element_at xs 2]
                                   else [element_at xs 3, element_at xs 2])) g)"
  using assms(2)
  by (simp add: submit1_def submitWork1_present [OF assms(1)] Let_def submit_error_message_def
        split: sum.splits)

lemma submit2_present:
  assumes "submitblock be = Some f" and "authorized c"
    and "algorithm c \<in> JStr ` snd ` set ALGORITHMS"
  shows "submit2 be c i (JArr xs) g =
           (Resolved (Some
              (if printable [element_at xs 0, algorithm c]
               then (case f (if algorithm c = JStr ''progpow''
                             then [element_at xs 3, element_at xs 4, element_at xs 2]
                             else [element_at xs 3, element_at xs 2]) of
                       Inl err \<Rightarrow> Response i JNull (JStr (message err))
                     | Inr r \<Rightarrow> accepted i)
               else internal_error i)),
            c,
            log_call (SubmitBlock (if algorithm c = JStr ''progpow''
                                   then [element_at xs 3, element_at xs 4, element_at xs 2]
                                   else [element_at xs 3, element_at xs 2])) g)"
  using assms(2,3)
  by (simp add: submit2_def submitWork2_present [OF assms(1)] Let_def submit_error_message_def
        split: sum.splits)

lemma submit1_absent:
  assumes "submitblock be = None"
  shows "snd (snd (submit1 be c i ps g)) = g"
  by (simp add: submit1_def submitWork1_absent [OF assms] Let_def split: option.splits)

lemma submit2_absent:
  assumes "submitblock be = None"
  shows "snd (snd (submit2 be c i ps g)) = g"
  by (simp add: submit2_def submitWork2_absent [OF assms] Let_def split: option.splits)

lemma submit1_calls_any:
  "rpc_calls (snd (snd (submit1 be c i (JArr xs) g))) = rpc_calls g
   \<or> rpc_calls (snd (snd (submit1 be c i (JArr xs) g))) =
       rpc_calls g @ [SubmitBlock (if algorithm c = JStr ''progpow''
                                   then [element_at xs 3, element_at xs 4, element_at xs 2]
                                   else [element_at xs 3, element_at xs 2])]"
proof (cases "submitblock be")
  case None
  then show ?thesis
    by (simp add: submit1_absent)
next
  case (Some f)
  show ?thesis
  proof (cases "printable [element_at xs 1, element_at xs 2]")
    case True
    show ?thesis
      by (simp add: submit1_present [OF Some True] rpc_calls_log_call)
  next
    case False
    then show ?thesis
      by (simp add: submit1_def)
  qed
qed

lemma submit2_calls_any:
  "rpc_calls (snd (snd (submit2 be c i (JArr xs) g))) = rpc_calls g
   \<or> rpc_calls (snd (snd (submit2 be c i (JArr xs) g))) =
       rpc_calls g @ [SubmitBlock (if algorithm c = JStr ''progpow''
                                   then [element_at xs 3, element_at xs 4, element_at xs 2]
                                   else [element_at xs 3, element_at xs 2])]"
proof (cases "submitblock be")
  case None
  then show ?thesis
    by (simp add: submit2_absent)
next
  case (Some f)
  show ?thesis
  proof (cases "authorized c \<and> algorithm c \<in> JStr ` snd ` set ALGORITHMS")
    case True
    then show ?thesis
      by (simp add: submit2_present [OF Some] rpc_calls_log_call)
  next
    case False
    then show ?thesis
      by (auto simp: submit2_def submitWork2_present [OF Some] Let_def split: option.splits)
  qed
qed

lemma handleStratumMethod1_submit:
  "handleStratumMethod1 be c
     \<lparr>msg_id = i, msg_method = JStr ''mining.submit'', msg_params = ps\<rparr> g =
   (if to_string i = None then (Rejected TypeError, c, g) else submit1 be c i ps g)"
  by (simp add: handleStratumMethod1_def)

lemma handleStratumMethod2_submit:
  "handleStratumMethod2 be c
     \<lparr>msg_id = i, msg_method = JStr ''mining.submit'', msg_params = ps\<rparr> g =
   submit2 be c i ps g"
  by (simp add: handleStratumMethod2_def)

text \<open>
  C4. Let the client have the method \<^verbatim>\<open>submitblock\<close>, with \<open>f\<close> the function from
  the parameter list it is given to its answer. \<^verbatim>\<open>submitWork\<close> calls it once, with
  \<open>[header, mixHash, nonce]\<close> for the algorithm progpow and with \<open>[header, nonce]\<close>
  otherwise, and settles with the answer to that list; the second variant makes the call
  for the supported algorithms only. For a submit message handled on a session that is bound
  to a supported algorithm, the one call made is \<^verbatim>\<open>submitblock\<close> with the fourth, fifth
  and third parameter of the message for progpow, and the fourth and third otherwise, and
  the response to the client is decided by the answer to that list. On any session, for
  any parameter array and any client, a submit message leads to no call or to that one
  call, with the parameters in the order that the algorithm of the session asks for; with a
  client that has no such method it leads to no call.
\<close>

theorem submitblock_parameter_order:
  assumes "a \<in> snd ` set ALGORITHMS" and "algorithm c = JStr a" and "authorized c"
    and "to_string i \<noteq> None" and "printable [element_at xs 1, element_at xs 2]"
    and "submitblock be = Some f"
  shows "submitWork1 be sub g =
           (case f (if algo sub = JStr ''progpow''
                    then [header sub, mixHash sub, nonce sub]
                    else [header sub, nonce sub]) of
              Inl err \<Rightarrow> Inl (SubmitError err)
            | Inr r \<Rightarrow> Inr r,
            g\<lparr>rpc_calls := rpc_calls g @ [SubmitBlock (if algo sub = JStr ''progpow''
                                                      then [header sub, mixHash sub, nonce sub]
                                                      else [header sub, nonce sub])]\<rparr>)
       \<and> submitWork2 be sub g =
           (if algo sub \<in> JStr ` snd ` set ALGORITHMS
            then (case f (if algo sub = JStr ''progpow''
                          then [header sub, mixHash sub, nonce sub]
                          else [header sub, nonce sub]) of
                    Inl err \<Rightarrow> Inl (SubmitError err)
                  | Inr r \<Rightarrow> Inr r,
                  g\<lparr>rpc_calls := rpc_calls g @ [SubmitBlock (if algo sub = JStr ''progpow''
                                                            then [header sub, mixHash sub, nonce sub]
                                                            else [header sub, nonce sub])]\<rparr>)
            else (Inl InvalidAlgorithm, g))
       \<and> rpc_calls (snd (submitWork1 be sub g)) =
           rpc_calls g @ [SubmitBlock (if algo sub = JStr ''progpow''
                                       then [header sub, mixHash sub, nonce sub]
                                       else [header sub, nonce sub])]
       \<and> rpc_calls (snd (submitWork2 be sub g)) =
           rpc_calls g @ (if algo sub \<in> JStr ` snd ` set ALGORITHMS
                          then [SubmitBlock (if algo sub = JStr ''progpow''
                                             then [header sub, mixHash sub, nonce sub]
                                             else [header sub, nonce sub])]
                          else [])
       \<and> rpc_calls (snd (snd (handleStratumMethod1 be c
             \<lparr>msg_id = i, msg_method = JStr ''mining.submit'', msg_params = JArr xs\<rparr> g))) =
           rpc_calls g @ [SubmitBlock (if a = ''progpow''
                                       then [element_at xs 3, element_at xs 4, element_at xs 2]
                                       else [element_at xs 3, element_at xs 2])]
       \<and> rpc_calls (snd (snd (handleStratumMethod2 be c
             \<lparr>msg_id = i, msg_method = JStr ''mining.submit'', msg_params = JArr xs\<rparr> g))) =
           rpc_calls g @ [SubmitBlock (if a = ''progpow''
                                       then [element_at xs 3, element_at xs 4, element_at xs 2]
                                       else [element_at xs 3, element_at xs 2])]
       \<and> fst (handleStratumMethod1 be c
             \<lparr>msg_id = i, msg_method = JStr ''mining.submit'', msg_params = JArr xs\<rparr> g) =
           Resolved (Some
             (if printable [element_at xs 0]
              then (case f (if a = ''progpow''
                            then [element_at xs 3, element_at xs 4, element_at xs 2]
                            else [element_at xs 3, element_at xs 2]) of
                      Inl err \<Rightarrow> Response i JNull (JStr (message err))
                    | Inr r \<Rightarrow> accepted i)
              else internal_error i))
       \<and> fst (handleStratumMethod2 be c
             \<lparr>msg_id = i, msg_method = JStr ''mining.submit'', msg_params = JArr xs\<rparr> g) =
           Resolved (Some
             (if printable [element_at xs 0]
              then (case f (if a = ''progpow''
                            then [element_at xs 3, element_at xs 4, element_at xs 2]
                            else [element_at xs 3, element_at xs 2]) of
                      Inl err \<Rightarrow> Response i JNull (JStr (message err))
                    | Inr r \<Rightarrow> accepted i)
              else internal_error i))
       \<and> (rpc_calls (snd (snd (handleStratumMethod1 be' c'
             \<lparr>msg_id = i', msg_method = JStr ''mining.submit'', msg_params = JArr ys\<rparr> g))) =
             rpc_calls g
          \<or> rpc_calls (snd (snd (handleStratumMethod1 be' c'
             \<lparr>msg_id = i', msg_method = JStr ''mining.submit'', msg_params = JArr ys\<rparr> g))) =
             rpc_calls g @ [SubmitBlock (if algorithm c' = JStr ''progpow''
                                         then [element_at ys 3, element_at ys 4, element_at ys 2]
                                         else [element_at ys 3, element_at ys 2])])
       \<and> (rpc_calls (snd (snd (handleStratumMethod2 be' c'
             \<lparr>msg_id = i', msg_method = JStr ''mining.submit'', msg_params = JArr ys\<rparr> g))) =
             rpc_calls g
          \<or> rpc_calls (snd (snd (handleStratumMethod2 be' c'
             \<lparr>msg_id = i', msg_method = JStr ''mining.submit'', msg_params = JArr ys\<rparr> g))) =
             rpc_calls g @ [SubmitBlock (if algorithm c' = JStr ''progpow''
                                         then [element_at ys 3, element_at ys 4, element_at ys 2]
                                         else [element_at ys 3, element_at ys 2])])
       \<and> snd (snd (handleStratumMethod1 (be'\<lparr>submitblock := None\<rparr>) c'
             \<lparr>msg_id = i', msg_method = JStr ''mining.submit'', msg_params = ps'\<rparr> g)) = g
       \<and> snd (snd (handleStratumMethod2 (be'\<lparr>submitblock := None\<rparr>) c'
             \<lparr>msg_id = i', msg_method = JStr ''mining.submit'', msg_params = ps'\<rparr> g)) = g"
proof -
  let ?m = "\<lparr>msg_id = i, msg_method = JStr ''mining.submit'', msg_params = JArr xs\<rparr>"
  let ?m' = "\<lparr>msg_id = i', msg_method = JStr ''mining.submit'', msg_params = JArr ys\<rparr>"
  let ?n = "\<lparr>msg_id = i', msg_method = JStr ''mining.submit'', msg_params = ps'\<rparr>"
  let ?ps = "if algo sub = JStr ''progpow''
             then [header sub, mixHash sub, nonce sub] else [header sub, nonce sub]"
  let ?xs = "if a = ''progpow''
             then [element_at xs 3, element_at xs 4, element_at xs 2]
             else [element_at xs 3, element_at xs 2]"
  let ?ys = "if algorithm c' = JStr ''progpow''
             then [element_at ys 3, element_at ys 4, element_at ys 2]
             else [element_at ys 3, element_at ys 2]"
  let ?reply = "Resolved (Some
             (if printable [element_at xs 0]
              then (case f ?xs of
                      Inl err \<Rightarrow> Response i JNull (JStr (message err))
                    | Inr r \<Rightarrow> accepted i)
              else internal_error i))"
  have sup: "algorithm c \<in> JStr ` snd ` set ALGORITHMS"
    using assms(1,2) by simp
  have pr: "printable [element_at xs 0, algorithm c] = printable [element_at xs 0]"
    by (simp add: assms(2) printable_def)
  have h1: "handleStratumMethod1 be c ?m g = submit1 be c i (JArr xs) g"
    using assms(4) by (auto simp: handleStratumMethod1_submit)
  have h2: "handleStratumMethod2 be c ?m g = submit2 be c i (JArr xs) g"
    by (simp add: handleStratumMethod2_submit)
  have w1: "submitWork1 be sub g =
              (case f ?ps of Inl err \<Rightarrow> Inl (SubmitError err) | Inr r \<Rightarrow> Inr r,
               g\<lparr>rpc_calls := rpc_calls g @ [SubmitBlock ?ps]\<rparr>)"
    by (simp add: submitWork1_present [OF assms(6)] log_call_def)
  have w2: "submitWork2 be sub g =
              (if algo sub \<in> JStr ` snd ` set ALGORITHMS
               then (case f ?ps of Inl err \<Rightarrow> Inl (SubmitError err) | Inr r \<Rightarrow> Inr r,
                     g\<lparr>rpc_calls := rpc_calls g @ [SubmitBlock ?ps]\<rparr>)
               else (Inl InvalidAlgorithm, g))"
    by (simp add: submitWork2_present [OF assms(6)] log_call_def)
  have l1: "rpc_calls (snd (submitWork1 be sub g)) = rpc_calls g @ [SubmitBlock ?ps]"
    by (simp add: submitWork1_present [OF assms(6)] rpc_calls_log_call)
  have l2: "rpc_calls (snd (submitWork2 be sub g)) =
              rpc_calls g @ (if algo sub \<in> JStr ` snd ` set ALGORITHMS
                             then [SubmitBlock ?ps] else [])"
    by (simp add: submitWork2_present [OF assms(6)] rpc_calls_log_call)
  have c1: "rpc_calls (snd (snd (handleStratumMethod1 be c ?m g))) =
              rpc_calls g @ [SubmitBlock ?xs]"
    by (simp add: h1 submit1_present [OF assms(6,5)] rpc_calls_log_call assms(2))
  have c2: "rpc_calls (snd (snd (handleStratumMethod2 be c ?m g))) =
              rpc_calls g @ [SubmitBlock ?xs]"
    by (simp add: h2 submit2_present [OF assms(6,3) sup] rpc_calls_log_call assms(2))
  have r1: "fst (handleStratumMethod1 be c ?m g) = ?reply"
    by (simp add: h1 submit1_present [OF assms(6,5)] pr) (simp add: assms(2))
  have r2: "fst (handleStratumMethod2 be c ?m g) = ?reply"
    by (simp add: h2 submit2_present [OF assms(6,3) sup] pr) (simp add: assms(2))
  have any1: "rpc_calls (snd (snd (handleStratumMethod1 be' c' ?m' g))) = rpc_calls g
          \<or> rpc_calls (snd (snd (handleStratumMethod1 be' c' ?m' g))) =
             rpc_calls g @ [SubmitBlock ?ys]"
    using submit1_calls_any [of be' c' i' ys g]
    by (cases "to_string i' = None") (auto simp: handleStratumMethod1_submit)
  have any2: "rpc_calls (snd (snd (handleStratumMethod2 be' c' ?m' g))) = rpc_calls g
          \<or> rpc_calls (snd (snd (handleStratumMethod2 be' c' ?m' g))) =
             rpc_calls g @ [SubmitBlock ?ys]"
    using submit2_calls_any [of be' c' i' ys g] by (simp add: handleStratumMethod2_submit)
  have n1: "snd (snd (handleStratumMethod1 (be'\<lparr>submitblock := None\<rparr>) c' ?n g)) = g"
    by (simp add: handleStratumMethod1_submit submit1_absent)
  have n2: "snd (snd (handleStratumMethod2 (be'\<lparr>submitblock := None\<rparr>) c' ?n g)) = g"
    by (simp add: handleStratumMethod2_submit submit2_absent)
  show ?thesis
    by (intro conjI w1 w2 l1 l2 c1 c2 r1 r2 any1 any2 n1 n2)
qed

text \<open>
  The parameter order at a session bound to progpow, in both variants, with a node that
  accepts every block.
\<close>

theorem submitblock_parameter_order_witness:
  "''progpow'' \<in> snd ` set ALGORITHMS
   \<and> submitblock (node 1) = Some (\<lambda>ps. Inr JNull)
   \<and> handleStratumMethod2 (node 1)
         ((connection2 ''t'')\<lparr>algorithm := JStr ''progpow'', authorized := True\<rparr>)
         submit_message start
       = (Resolved (Some (accepted (JNum ''4''))),
          (connection2 ''t'')\<lparr>algorithm := JStr ''progpow'', authorized := True\<rparr>,
          start\<lparr>rpc_calls := [SubmitBlock [JStr ''aa'', JStr ''bb'', JStr ''0f'']]\<rparr>)
   \<and> rpc_calls (snd (snd (handleStratumMethod1 (node 1)
         ((connection2 ''t'')\<lparr>algorithm := JStr ''progpow'', authorized := True\<rparr>)
         submit_message start)))
       = [SubmitBlock [JStr ''aa'', JStr ''bb'', JStr ''0f'']]
   \<and> fst (handleStratumMethod1 (node 1)
         ((connection2 ''t'')\<lparr>algorithm := JStr ''progpow'', authorized := True\<rparr>)
         submit_message start)
       = Resolved (Some (accepted (JNum ''4'')))"
proof -
  let ?c = "(connection2 ''t'')\<lparr>algorithm := JStr ''progpow'', authorized := True\<rparr>"
  have a: "''progpow'' \<in> snd ` set ALGORITHMS"
    by (simp add: ALGORITHMS_def)
  have f: "submitblock (node 1) = Some (\<lambda>ps. Inr JNull)"
    by (simp add: node_def)
  have p: "printable [element_at [JStr ''w1'', JStr ''progpow-1'', JStr ''0f'', JStr ''aa'',
                                  JStr ''bb''] 1,
                      element_at [JStr ''w1'', JStr ''progpow-1'', JStr ''0f'', JStr ''aa'',
                                  JStr ''bb''] 2]"
    by (simp add: printable_def element_at_def)
  have i: "to_string (JNum ''4'') \<noteq> None"
    by simp
  note t = submitblock_parameter_order [of "''progpow''" ?c "JNum ''4''"
      "[JStr ''w1'', JStr ''progpow-1'', JStr ''0f'', JStr ''aa'', JStr ''bb'']"
      "node 1" "\<lambda>ps. Inr JNull", OF a _ _ i p f]
  have h2: "handleStratumMethod2 (node 1) ?c submit_message start
              = (Resolved (Some (accepted (JNum ''4''))), ?c,
                 start\<lparr>rpc_calls := [SubmitBlock [JStr ''aa'', JStr ''bb'', JStr ''0f'']]\<rparr>)"
    by (simp add: handleStratumMethod2_def submit2_def submitWork2_def node_def
          submit_message_def start_def log_call_def printable_def element_at_def Let_def)
  have c1: "rpc_calls (snd (snd (handleStratumMethod1 (node 1) ?c submit_message start)))
              = [SubmitBlock [JStr ''aa'', JStr ''bb'', JStr ''0f'']]"
    using t [where g = start] by (simp add: submit_message_def start_def element_at_def)
  have r1: "fst (handleStratumMethod1 (node 1) ?c submit_message start)
              = Resolved (Some (accepted (JNum ''4'')))"
    using t [where g = start] by (simp add: submit_message_def printable_def element_at_def)
  show ?thesis
    by (intro conjI a f h2 c1 r1)
qed

subsection \<open>C5: validation of the requested algorithm\<close>



lemma truthy_progpow_veil: "truthy (ALGORITHMS_get ''progpow-veil'')"
  by (simp add: ALGORITHMS_get_def ALGORITHMS_def)

lemma subscribe1_algorithm:
  assumes "iterate ps = Some xs"
  shows "algorithm (fst (snd (subscribe1 be c i ps g))) = JStr ''progpow''"
proof (cases "createMiningJob1 be (JStr ''progpow'') g")
  case (Pair r g')
  then show ?thesis
    using assms
    by (cases r)
       (simp_all add: subscribe1_def Let_def socket_write_def sendMiningJob1_def
          truthy_progpow_veil)
qed


text \<open>
  The test \<^verbatim>\<open>!ALGORITHMS[algo]\<close> of the second variant lets the names of inherited
  properties through: a subscribe for \<^verbatim>\<open>"toString"\<close> binds the session to the built-in
  function and announces the default difficulty.
\<close>

lemma subscribe2_inherited_property:
  "on_message2 (node 1) (connection2 ''t'') (subscribe_message ''toString'') start =
     ((connection2 ''t'')
        \<lparr>socket :=
           [Notification ''mining.set_difficulty'' [JNum ''0.01''],
            Response (JNum ''1'')
              (JArr [JArr [JArr [JStr ''mining.set_difficulty'', JStr ''1''],
                           JArr [JStr ''mining.notify'', JStr ''1'']],
                     JStr ''undefined'', JStr ''08''])
              JNull],
         algorithm := JNative ''toString'', difficulty := JNum ''0.01''\<rparr>,
      start)"
  by (simp add: on_message2_def handleStratumMethod2_def subscribe2_def subscribe_message_def
        connection2_def ALGORITHMS_get_def ALGORITHMS_def Object_prototype_def
        getDifficultyForAlgo_def socket_write_def element_at_def Let_def)




subsection \<open>C6: rebinding the algorithm of a session\<close>

lemma socket_write_algorithm: "algorithm (socket_write f c) = algorithm c"
  by (simp add: socket_write_def)

lemma on_message1_algorithm:
  "algorithm (fst (on_message1 be c m g)) = algorithm (fst (snd (handleStratumMethod1 be c m g)))"
  by (simp add: on_message1_def socket_write_algorithm
           split: prod.splits promise.splits option.splits)

lemma on_message2_algorithm:
  "algorithm (fst (on_message2 be c m g)) = algorithm (fst (snd (handleStratumMethod2 be c m g)))"
  by (simp add: on_message2_def socket_write_algorithm
           split: prod.splits promise.splits option.splits)

lemma authorize1_algorithm: "algorithm (fst (snd (authorize1 c i ps g))) = algorithm c"
  by (simp add: authorize1_def Let_def socket_write_algorithm split: option.splits)

lemma submit1_algorithm: "algorithm (fst (snd (submit1 be c i ps g))) = algorithm c"
  by (simp add: submit1_def Let_def split: option.splits prod.splits sum.splits)

lemma sendMiningJob2_algorithm: "algorithm (sendMiningJob2 c j) = algorithm c"
  by (simp add: sendMiningJob2_def socket_write_algorithm)

lemma authorize2_algorithm: "algorithm (fst (snd (authorize2 be c i ps g))) = algorithm c"
proof (cases "createMiningJob2 be (algorithm c) g")
  case (Pair r g')
  then show ?thesis
    by (cases r; cases "iterate ps")
       (simp_all add: authorize2_def Let_def sendMiningJob2_algorithm)
qed

lemma subscribe1_algorithm_any:
  "algorithm (fst (snd (subscribe1 be c i ps g))) = JStr ''progpow''
   \<or> algorithm (fst (snd (subscribe1 be c i ps g))) = algorithm c"
proof (cases "iterate ps")
  case None
  then show ?thesis by (simp add: subscribe1_def)
next
  case (Some xs)
  then show ?thesis by (simp add: subscribe1_algorithm)
qed

lemma handleStratumMethod1_progpow:
  assumes "algorithm c = JStr ''progpow''"
  shows "algorithm (fst (snd (handleStratumMethod1 be c m g))) = JStr ''progpow''"
  using assms subscribe1_algorithm_any [of be c "msg_id m" "msg_params m" g]
  by (cases "to_string (msg_method m)")
     (auto simp: handleStratumMethod1_def authorize1_algorithm submit1_algorithm)

lemma subscribe2_binds:
  assumes "iterate ps = Some xs" and "to_string (element_at xs 0) = Some k"
    and "map_of ALGORITHMS k = Some a"
  shows "algorithm (fst (snd (subscribe2 c i ps g))) = JStr a"
proof -
  have get: "ALGORITHMS_get k = JStr a"
    using assms(3) by (simp add: ALGORITHMS_get_def)
  have "a \<noteq> []"
    using assms(3) by (auto simp: ALGORITHMS_def split: if_splits)
  then show ?thesis
    using assms(1,2)
    by (simp add: subscribe2_def get Let_def socket_write_algorithm split: option.splits)
qed

text \<open>
  C6, as amended. No \<^verbatim>\<open>mining.authorize\<close> message changes the algorithm of a session,
  in either variant. In the first variant a session bound to progpow, the only algorithm
  that variant binds, stays bound to progpow whatever message it handles. In the second
  variant a \<^verbatim>\<open>mining.subscribe\<close> whose first parameter renders to a key of
  \<open>ALGORITHMS\<close> binds the session to the algorithm of that key, whatever it was bound to
  before.
\<close>

theorem algorithm_rebinding:
  assumes "algorithm c1 = JStr ''progpow''"
    and "iterate ps = Some xs" and "to_string (element_at xs 0) = Some k"
    and "map_of ALGORITHMS k = Some a"
  shows "algorithm (fst (on_message1 be c
             \<lparr>msg_id = i, msg_method = JStr ''mining.authorize'', msg_params = qs\<rparr> g))
           = algorithm c
       \<and> algorithm (fst (on_message2 be c
             \<lparr>msg_id = i, msg_method = JStr ''mining.authorize'', msg_params = qs\<rparr> g))
           = algorithm c
       \<and> algorithm (fst (on_message1 be c1 m g)) = JStr ''progpow''
       \<and> algorithm (fst (on_message2 be c
             \<lparr>msg_id = i, msg_method = JStr ''mining.subscribe'', msg_params = ps\<rparr> g))
           = JStr a"
proof -
  have a1: "algorithm (fst (snd (handleStratumMethod1 be c
              \<lparr>msg_id = i, msg_method = JStr ''mining.authorize'', msg_params = qs\<rparr> g)))
            = algorithm c"
    by (simp add: handleStratumMethod1_def authorize1_algorithm)
  show ?thesis
    using handleStratumMethod1_progpow [OF assms(1)] subscribe2_binds [OF assms(2-4)]
    by (simp add: on_message1_algorithm on_message2_algorithm a1 handleStratumMethod2_def
          authorize2_algorithm)
qed

text \<open>
  A session bound to progpow that asks for sha256d: the first variant keeps progpow, the
  second rebinds.
\<close>

theorem algorithm_rebinding_witness:
  "map_of ALGORITHMS ''sha256d'' = Some ''sha256d''
   \<and> algorithm (fst (on_message1 (node 1) ((connection1 ''t'')\<lparr>algorithm := JStr ''progpow''\<rparr>)
        (subscribe_message ''sha256d'') start)) = JStr ''progpow''
   \<and> algorithm (fst (on_message2 (node 1) ((connection1 ''t'')\<lparr>algorithm := JStr ''progpow''\<rparr>)
        (subscribe_message ''sha256d'') start)) = JStr ''sha256d''"
  using algorithm_rebinding [of "(connection1 ''t'')\<lparr>algorithm := JStr ''progpow''\<rparr>"
      "JArr [JStr ''sha256d'']" "[JStr ''sha256d'']" "''sha256d''" "''sha256d''" "node 1"
      "(connection1 ''t'')\<lparr>algorithm := JStr ''progpow''\<rparr>" "JNum ''1''" "JArr []" start
      "subscribe_message ''sha256d''"]
  by (simp add: ALGORITHMS_def element_at_def subscribe_message_def)

text \<open>
  C6 fails on the second variant: a session subscribes for progpow-veil and is bound to
  progpow; it subscribes again for sha256d and is bound to sha256d.
\<close>

theorem resubscribe2_rebinds:
  "algorithm (fst (on_message2 (node 1) (connection2 ''t'')
      (subscribe_message ''progpow-veil'') start)) = JStr ''progpow''
   \<and> algorithm (fst (on_message2 (node 1)
        (fst (on_message2 (node 1) (connection2 ''t'') (subscribe_message ''progpow-veil'') start))
        (subscribe_message ''sha256d'') start)) = JStr ''sha256d''"
  by (simp add: on_message2_algorithm handleStratumMethod2_def subscribe_message_def
        subscribe2_binds [where a = "''progpow''"] subscribe2_binds [where a = "''sha256d''"]
        element_at_def ALGORITHMS_def)

subsection \<open>C7: the frames of a subscribe\<close>

lemma subscribe1_socket:
  assumes "iterate ps = Some xs" and "to_string (element_at xs 0) \<noteq> None"
  shows "(fst (subscribe1 be c i ps g) = Resolved None \<or> fst (subscribe1 be c i ps g) = Pending)
       \<and> (\<exists>rest. socket (fst (snd (subscribe1 be c i ps g))) =
             socket c @
             [Notification ''mining.set_difficulty'' [JNum ''0.002''],
              Response i
                (JArr [JArr [JArr [JStr ''mining.set_difficulty'',
                                   JStr ''b4b6693b72a50c7116db18d6497cac52''],
                             JArr [JStr ''mining.notify'',
                                   JStr ''ae6812eb4cd7735a302a8a9dd95cf71f'']],
                       JStr ''00000000'', JNum ''4''])
                JNull] @ rest
             \<and> (rest = [] \<or> (\<exists>qs. rest = [Notification ''mining.notify'' qs])))"
proof (cases "createMiningJob1 be (JStr ''progpow'') g")
  case (Pair r g')
  have p: "printable [if element_at xs 0 = JUndefined then JStr ''wildrig-multi''
                      else element_at xs 0]"
    using assms(2) by (simp add: printable_def)
  show ?thesis
    using Pair assms(1) p
    by (cases r)
       (simp_all add: subscribe1_def Let_def socket_write_def sendMiningJob1_def
          truthy_progpow_veil getDifficultyForAlgo_def extranonce_bytes extranonce_hex dec_4)
qed

lemma subscribe2_socket:
  assumes "iterate ps = Some xs" and "to_string (element_at xs 0) = Some k"
    and "map_of ALGORITHMS k = Some a"
    and "to_string i = Some si" and "to_string (element_at xs 1) = Some clientId"
  shows "on_message2 be c \<lparr>msg_id = i, msg_method = JStr ''mining.subscribe'', msg_params = ps\<rparr> g
     = (c\<lparr>socket := socket c @
             [Notification ''mining.set_difficulty'' [getDifficultyForAlgo (JStr a)],
              Response i
                (JArr [JArr [JArr [JStr ''mining.set_difficulty'', JStr si],
                             JArr [JStr ''mining.notify'', JStr si]],
                       JStr clientId, JStr ''08''])
                JNull],
           algorithm := JStr a, difficulty := getDifficultyForAlgo (JStr a)\<rparr>, g)"
proof -
  have get: "ALGORITHMS_get k = JStr a"
    using assms(3) by (simp add: ALGORITHMS_get_def)
  have "a \<noteq> []"
    using assms(3) by (auto simp: ALGORITHMS_def split: if_splits)
  then show ?thesis
    using assms(1,2,4,5)
    by (simp add: on_message2_def handleStratumMethod2_def subscribe2_def get Let_def
          socket_write_def)
qed

text \<open>
  C7, as amended. For \<^verbatim>\<open>mining.subscribe\<close> with the parameters
  \<^verbatim>\<open>["progpow-veil"]\<close> and an id that renders as text, both variants write first the
  \<^verbatim>\<open>mining.set_difficulty\<close> notification carrying 0.002 and then the subscribe result.
  In the first variant the extra-nonce entry of the result is \<^verbatim>\<open>"00000000"\<close>, the
  hexadecimal text of a buffer of \<open>EXTRA_NONCE_BYTES\<close> bytes, followed by that length;
  at most one frame follows, a \<^verbatim>\<open>mining.notify\<close>. In the second variant the entry is the
  text of the second parameter, \<^verbatim>\<open>"undefined"\<close> here, followed by \<^verbatim>\<open>"08"\<close>.
\<close>

theorem subscribe_frames:
  assumes "to_string i = Some si"
  shows "(\<exists>rest. socket (fst (on_message1 be c
             \<lparr>msg_id = i, msg_method = JStr ''mining.subscribe'',
              msg_params = JArr [JStr ''progpow-veil'']\<rparr> g)) =
           socket c @
           [Notification ''mining.set_difficulty'' [JNum ''0.002''],
            Response i
              (JArr [JArr [JArr [JStr ''mining.set_difficulty'',
                                 JStr ''b4b6693b72a50c7116db18d6497cac52''],
                           JArr [JStr ''mining.notify'',
                                 JStr ''ae6812eb4cd7735a302a8a9dd95cf71f'']],
                     JStr ''00000000'', JNum ''4''])
              JNull] @ rest
           \<and> (rest = [] \<or> (\<exists>qs. rest = [Notification ''mining.notify'' qs])))
       \<and> Buffer_toString_hex (Buffer_from_hex (repeat ''00'' EXTRA_NONCE_BYTES)) = ''00000000''
       \<and> is_hex ''00000000'' \<and> length ''00000000'' = 2 * EXTRA_NONCE_BYTES
       \<and> length (Buffer_from_hex ''00000000'') = EXTRA_NONCE_BYTES
       \<and> dec EXTRA_NONCE_BYTES = ''4''

       \<and> socket (fst (on_message2 be c
             \<lparr>msg_id = i, msg_method = JStr ''mining.subscribe'',
              msg_params = JArr [JStr ''progpow-veil'']\<rparr> g)) =
           socket c @
           [Notification ''mining.set_difficulty'' [JNum ''0.002''],
            Response i
              (JArr [JArr [JArr [JStr ''mining.set_difficulty'', JStr si],
                           JArr [JStr ''mining.notify'', JStr si]],
                     JStr ''undefined'', JStr ''08''])
              JNull]"
proof -
  let ?m = "\<lparr>msg_id = i, msg_method = JStr ''mining.subscribe'',
             msg_params = JArr [JStr ''progpow-veil'']\<rparr>"
  have h: "handleStratumMethod1 be c ?m g = subscribe1 be c i (JArr [JStr ''progpow-veil'']) g"
    using assms by (simp add: handleStratumMethod1_def)
  have s: "socket (fst (on_message1 be c ?m g)) =
             socket (fst (snd (subscribe1 be c i (JArr [JStr ''progpow-veil'']) g)))"
    using subscribe1_socket [of "JArr [JStr ''progpow-veil'']" "[JStr ''progpow-veil'']" be c i g]
    by (cases "subscribe1 be c i (JArr [JStr ''progpow-veil'']) g")
       (auto simp: on_message1_def h element_at_def)
  have v1: "\<exists>rest. socket (fst (on_message1 be c ?m g)) =
           socket c @
           [Notification ''mining.set_difficulty'' [JNum ''0.002''],
            Response i
              (JArr [JArr [JArr [JStr ''mining.set_difficulty'',
                                 JStr ''b4b6693b72a50c7116db18d6497cac52''],
                           JArr [JStr ''mining.notify'',
                                 JStr ''ae6812eb4cd7735a302a8a9dd95cf71f'']],
                     JStr ''00000000'', JNum ''4''])
              JNull] @ rest
           \<and> (rest = [] \<or> (\<exists>qs. rest = [Notification ''mining.notify'' qs]))"
    using subscribe1_socket [of "JArr [JStr ''progpow-veil'']" "[JStr ''progpow-veil'']" be c i g]
    by (simp only: s) (simp add: element_at_def)
  have v2: "socket (fst (on_message2 be c ?m g)) =
           socket c @
           [Notification ''mining.set_difficulty'' [JNum ''0.002''],
            Response i
              (JArr [JArr [JArr [JStr ''mining.set_difficulty'', JStr si],
                           JArr [JStr ''mining.notify'', JStr si]],
                     JStr ''undefined'', JStr ''08''])
              JNull]"
    using subscribe2_socket [of "JArr [JStr ''progpow-veil'']" "[JStr ''progpow-veil'']"
        "''progpow-veil''" "''progpow''" i si "''undefined''" be c g] assms
    by (simp add: element_at_def ALGORITHMS_def getDifficultyForAlgo_def)
  have e: "is_hex ''00000000''"
    by (simp add: is_hex_def hex_value_0)
  have f1: "Buffer_toString_hex (Buffer_from_hex (repeat ''00'' EXTRA_NONCE_BYTES)) = ''00000000''"
    by (simp add: extranonce_bytes extranonce_hex)
  have f2: "length ''00000000'' = 2 * EXTRA_NONCE_BYTES"
    by (simp add: EXTRA_NONCE_BYTES_def)
  have f3: "length (Buffer_from_hex ''00000000'') = EXTRA_NONCE_BYTES"
    by (simp add: hex_value_0 EXTRA_NONCE_BYTES_def)
  have f4: "dec EXTRA_NONCE_BYTES = ''4''"
    by (simp add: dec_4)
  show ?thesis
    by (intro conjI v1 v2 e f1 f2 f3 f4)
qed

text \<open>The scenario of C7 at a fresh connection of the first variant, with the id 1.\<close>

theorem subscribe_frames_witness:
  "to_string (JNum ''1'') = Some ''1''
   \<and> (\<exists>rest. socket (fst (on_message1 (node 1) (connection1 ''t'')
           (subscribe_message ''progpow-veil'') start)) =
         [Notification ''mining.set_difficulty'' [JNum ''0.002''],
          Response (JNum ''1'')
            (JArr [JArr [JArr [JStr ''mining.set_difficulty'',
                               JStr ''b4b6693b72a50c7116db18d6497cac52''],
                         JArr [JStr ''mining.notify'',
                               JStr ''ae6812eb4cd7735a302a8a9dd95cf71f'']],
                   JStr ''00000000'', JNum ''4''])
            JNull] @ rest)
   \<and> is_hex ''00000000'' \<and> length ''00000000'' = 2 * EXTRA_NONCE_BYTES"
  using subscribe_frames [of "JNum ''1''" "''1''" "node 1" "connection1 ''t''" start]
  by (auto simp: subscribe_message_def connection1_def)

text \<open>
  C7 fails on the second variant: in the scenario the extra-nonce entry of the subscribe
  result is the text \<^verbatim>\<open>"undefined"\<close>, which is no hexadecimal string and does not have
  two digits for each of the \<open>EXTRA_NONCE_BYTES\<close> bytes.
\<close>

theorem subscribe2_extranonce:
  "socket (fst (on_message2 (node 1) (connection2 ''t'')
      (subscribe_message ''progpow-veil'') start)) =
     [Notification ''mining.set_difficulty'' [JNum ''0.002''],
      Response (JNum ''1'')
        (JArr [JArr [JArr [JStr ''mining.set_difficulty'', JStr ''1''],
                     JArr [JStr ''mining.notify'', JStr ''1'']],
               JStr ''undefined'', JStr ''08''])
        JNull]
   \<and> \<not> is_hex ''undefined''
   \<and> length ''undefined'' \<noteq> 2 * EXTRA_NONCE_BYTES"
  by (simp add: subscribe_message_def connection2_def
        subscribe2_socket [where xs = "[JStr ''progpow-veil'']" and k = "''progpow-veil''"
          and a = "''progpow''" and si = "''1''" and clientId = "''undefined''"]
        element_at_def ALGORITHMS_def getDifficultyForAlgo_def is_hex_def hex_value_def
        upt_rec EXTRA_NONCE_BYTES_def)

subsection \<open>C8: the effects of authorize\<close>





lemma on_message2_fields:
  "authorized (fst (on_message2 be c m g)) = authorized (fst (snd (handleStratumMethod2 be c m g)))
   \<and> wallet (fst (on_message2 be c m g)) = wallet (fst (snd (handleStratumMethod2 be c m g)))"
  by (simp add: on_message2_def socket_write_def
           split: prod.splits promise.splits option.splits)







subsection \<open>C9: unknown methods\<close>

lemma unknown_method1:
  assumes "to_string meth = Some name" and "to_string i \<noteq> None"
    and "meth \<noteq> JStr ''mining.subscribe''" and "meth \<noteq> JStr ''mining.authorize''"
    and "meth \<noteq> JStr ''mining.submit''"
  shows "handleStratumMethod1 be c \<lparr>msg_id = i, msg_method = meth, msg_params = ps\<rparr> g
     = (Resolved (Some (Response i JNull (JStr (''Unknown method '' @ name)))), c, g)"
  using assms by (simp add: handleStratumMethod1_def)

lemma unknown_method2:
  assumes "meth \<noteq> JStr ''mining.subscribe''" and "meth \<noteq> JStr ''mining.authorize''"
    and "meth \<noteq> JStr ''mining.submit''"
  shows "handleStratumMethod2 be c \<lparr>msg_id = i, msg_method = meth, msg_params = ps\<rparr> g
     = (Resolved None, c, g)"
  using assms by (simp add: handleStratumMethod2_def)

text \<open>
  C9 at \<^verbatim>\<open>{"id": i, "method": "mining.ping", "params": ps}\<close> in the second variant:
  the handler returns \<^verbatim>\<open>undefined\<close>, and the connection writes no frame. (In the first
  variant the \<^verbatim>\<open>default\<close> branch answers "Unknown method mining.ping", as
  \<open>unknown_method1\<close> shows.)
\<close>

theorem unknown_method2_silent:
  "handleStratumMethod2 be c \<lparr>msg_id = i, msg_method = JStr ''mining.ping'', msg_params = ps\<rparr> g
     = (Resolved None, c, g)
   \<and> on_message2 be c \<lparr>msg_id = i, msg_method = JStr ''mining.ping'', msg_params = ps\<rparr> g
     = (c, g)"
  by (simp add: handleStratumMethod2_def on_message2_def)

subsection \<open>C10: the session of a fresh connection\<close>

lemma subscribe2_fields:
  "authorized (fst (snd (subscribe2 c i ps g))) = authorized c
   \<and> wallet (fst (snd (subscribe2 c i ps g))) = wallet c"
  by (simp add: subscribe2_def Let_def socket_write_def split: option.splits prod.splits)

lemma submit2_fields:
  "authorized (fst (snd (submit2 be c i ps g))) = authorized c
   \<and> wallet (fst (snd (submit2 be c i ps g))) = wallet c"
  by (simp add: submit2_def Let_def split: option.splits prod.splits sum.splits)

lemma on_message2_fields_other:
  assumes "msg_method m \<noteq> JStr ''mining.authorize''"
  shows "authorized (fst (on_message2 be c m g)) = authorized c
       \<and> wallet (fst (on_message2 be c m g)) = wallet c"
  using assms
  by (simp add: on_message2_fields handleStratumMethod2_def subscribe2_fields submit2_fields)

text \<open>
  C10. A connection of the first variant starts authorized with the wallet
  \<^verbatim>\<open>'local_worker'\<close>; one of the second variant starts unauthorized with the wallet
  \<^verbatim>\<open>null\<close>. These values stand before any \<^verbatim>\<open>mining.authorize\<close> exchange: no message
  changes them in the first variant, and no message but \<^verbatim>\<open>mining.authorize\<close> changes
  them in the second.
\<close>

theorem fresh_session_flags:
  assumes "msg_method m \<noteq> JStr ''mining.authorize''"
  shows "authorized (connection1 now) \<and> wallet (connection1 now) = JStr ''local_worker''
       \<and> \<not> authorized (connection2 now) \<and> wallet (connection2 now) = JNull
       \<and> authorized (fst (on_message1 be c m' g)) = authorized c
       \<and> wallet (fst (on_message1 be c m' g)) = wallet c
       \<and> authorized (fst (on_message2 be c m g)) = authorized c
       \<and> wallet (fst (on_message2 be c m g)) = wallet c"
  using on_message1_fields [of be c m' g] on_message2_fields_other [OF assms, of be c g]
  by (simp add: connection1_def connection2_def)

text \<open>
  A fresh connection of the first variant after a \<^verbatim>\<open>mining.authorize\<close> from alice, and
  one of the second variant after a \<^verbatim>\<open>mining.subscribe\<close>.
\<close>

theorem fresh_session_flags_witness:
  "msg_method (subscribe_message ''sha256d'') \<noteq> JStr ''mining.authorize''
   \<and> authorized (fst (on_message1 (node 1) (connection1 ''t'') authorize_message start))
   \<and> wallet (fst (on_message1 (node 1) (connection1 ''t'') authorize_message start))
       = JStr ''local_worker''
   \<and> \<not> authorized (fst (on_message2 (node 1) (connection2 ''t'')
                          (subscribe_message ''sha256d'') start))
   \<and> wallet (fst (on_message2 (node 1) (connection2 ''t'') (subscribe_message ''sha256d'') start))
       = JNull"
  using fresh_session_flags [of "subscribe_message ''sha256d''" "''t''" "node 1"
      "connection1 ''t''" authorize_message start]
    fresh_session_flags [of "subscribe_message ''sha256d''" "''t''" "node 1"
      "connection2 ''t''" authorize_message start]
  by (simp add: subscribe_message_def)

end
